theory Spec2Isabelle
  imports Complex_Main "HOL-Library.Log_Nat"
begin

section \<open>Conventions\<close>

text \<open>
  The program is a Flask application (\<^verbatim>\<open>app.py\<close>) around the yt-dlp library. Its
  functions are embedded as HOL functions of the same names.

  \<^item> A Python \<^verbatim>\<open>str\<close> that the program builds or matches itself (URLs, identifiers,
    file names, messages) is a \<^typ>\<open>string\<close>; one \<^typ>\<open>char\<close> stands for one character
    (the characters with code points 0 to 255), so \<^const>\<open>length\<close> is Python's
    \<^verbatim>\<open>len\<close>.
  \<^item> A video title comes from the collaborator and may hold any character, so a title,
    and the download name derived from it, is a \<open>unicode\<close>: the list of the code
    points of the \<^verbatim>\<open>str\<close>, one natural number for each character.
  \<^item> A Python \<^verbatim>\<open>int\<close> is an \<^typ>\<open>int\<close>. A Python \<^verbatim>\<open>float\<close> is an IEEE-754 double:
    a finite double is the rational number it denotes, and every float operation
    rounds its exact result to the nearest double, ties to even
    (\<open>round_double\<close> below).
  \<^item> Points in time (\<^verbatim>\<open>time.time()\<close>, file times) are rational numbers of seconds.
  \<^item> An exception is a value of \<open>py_error\<close>; a function that can raise
    returns a sum with the exception on the left.
\<close>

datatype py_error =
    TypeError | KeyError string | IndexError | ValueError | OverflowError
  | ZeroDivisionError | OSError | CollaboratorError string

type_synonym unicode = "nat list"

text \<open>The code points of a string of the first kind.\<close>

definition code_points :: "string \<Rightarrow> unicode" where
  "code_points s = map of_char s"

section \<open>String operations of Python used by the program\<close>

text \<open>\<^verbatim>\<open>s.startswith(p)\<close>.\<close>

definition startswith :: "string \<Rightarrow> string \<Rightarrow> bool" where
  "startswith s p = (take (length p) s = p)"

text \<open>\<^verbatim>\<open>sub in s\<close>: \<open>sub\<close> occurs in \<open>s\<close> as a contiguous substring.\<close>

fun str_in :: "string \<Rightarrow> string \<Rightarrow> bool" where
  "str_in sub [] = (sub = [])"
| "str_in sub (c # cs) = (startswith (c # cs) sub \<or> str_in sub cs)"

text \<open>\<^verbatim>\<open>s.replace(a, b)\<close> for single characters \<open>a\<close> and \<open>b\<close>.\<close>

definition replace_char :: "'a \<Rightarrow> 'a \<Rightarrow> 'a list \<Rightarrow> 'a list" where
  "replace_char a b s = map (\<lambda>c. if c = a then b else c) s"

text \<open>\<^verbatim>\<open>str(n)\<close> for a non-negative and for an arbitrary integer.\<close>

definition digit_char :: "nat \<Rightarrow> char" where
  "digit_char n = ''0123456789'' ! (n mod 10)"

fun str_nat :: "nat \<Rightarrow> string" where
  "str_nat n = (if n < 10 then [digit_char n] else str_nat (n div 10) @ [digit_char n])"

declare str_nat.simps [simp del]

definition str_int :: "int \<Rightarrow> string" where
  "str_int i = (if i < 0 then CHR ''-'' # str_nat (nat (- i)) else str_nat (nat i))"

text \<open>The format specification \<^verbatim>\<open>:02d\<close>: sign-aware zero padding to width 2.\<close>

definition fmt_02d :: "int \<Rightarrow> string" where
  "fmt_02d i =
     (if i < 0 then CHR ''-'' # str_nat (nat (- i))
      else let s = str_nat (nat i) in replicate (2 - length s) CHR ''0'' @ s)"

section \<open>\<^verbatim>\<open>sanitize_filename\<close> (app.py, lines 27-36)\<close>

text \<open>The character class \<^verbatim>\<open>[<>:"/\\|?*]\<close> of the regular expression.\<close>

definition invalid_chars :: unicode where
  "invalid_chars =
     code_points
       [CHR ''<'', CHR ''>'', CHR '':'', CHR 0x22, CHR ''/'', CHR 0x5C, CHR ''|'', CHR ''?'',
        CHR ''*'']"

definition sanitize_filename :: "unicode \<Rightarrow> unicode" where
  "sanitize_filename filename =
     (let filename1 = filter (\<lambda>c. c \<notin> set invalid_chars) filename;
          filename2 = replace_char (of_char CHR '' '') (of_char CHR ''_'') filename1
      in if 150 < length filename2 then take 150 filename2 else filename2)"

section \<open>Double-precision arithmetic\<close>

text \<open>
  A float of the program is finite or an infinity (no operation of the program yields
  a NaN). \<open>ilog2 x\<close> is \<open>\<lfloor>log\<^sub>2 x\<rfloor>\<close> for a positive rational \<open>x\<close>;
  \<open>round_double\<close> rounds a rational to the nearest double (53 significant bits,
  least exponent \<open>-1074\<close>, ties to even, overflow to an infinity from \<open>2\<^sup>1\<^sup>0\<^sup>2\<^sup>4\<close> on).
\<close>

datatype pyfloat = Finite rat | PosInf | NegInf

definition ilog2 :: "rat \<Rightarrow> int" where
  "ilog2 x = (let (n, d) = quotient_of x; k = bitlen n - bitlen d
              in if 2 powi k \<le> x then k else k - 1)"

definition round_half_even :: "rat \<Rightarrow> int" where
  "round_half_even q =
     (let f = \<lfloor>q\<rfloor>; r = q - of_int f
      in if r < 1 / 2 then f
         else if 1 / 2 < r then f + 1
         else if even f then f else f + 1)"

definition round_double :: "rat \<Rightarrow> pyfloat" where
  "round_double x =
     (if x = 0 then Finite 0
      else let a = \<bar>x\<bar>;
               e = max (ilog2 a - 52) (- 1074);
               y = of_int (round_half_even (a / 2 powi e)) * 2 powi e
           in if 2 ^ 1024 \<le> y then (if 0 < x then PosInf else NegInf)
              else Finite (sgn x * y))"

text \<open>
  \<^verbatim>\<open>a / b\<close> on two Python integers: the correctly rounded quotient, with
  \<^verbatim>\<open>ZeroDivisionError\<close> and \<^verbatim>\<open>OverflowError\<close>.
\<close>

definition int_truediv :: "int \<Rightarrow> int \<Rightarrow> py_error + rat" where
  "int_truediv a b =
     (if b = 0 then Inl ZeroDivisionError
      else case round_double (of_int a / of_int b) of
             Finite q \<Rightarrow> Inr q
           | _ \<Rightarrow> Inl OverflowError)"

text \<open>\<^verbatim>\<open>x * 100\<close> on a finite float \<open>x\<close>.\<close>

definition float_times_100 :: "rat \<Rightarrow> pyfloat" where
  "float_times_100 x = round_double (x * 100)"

text \<open>
  The format specification \<^verbatim>\<open>:.1f\<close> on a finite float: the exact value rounded to
  one decimal, ties to even.
\<close>

definition fmt_1f :: "rat \<Rightarrow> string" where
  "fmt_1f x =
     (let t = nat (round_half_even (\<bar>x\<bar> * 10))
      in (if x < 0 then ''-'' else '''') @ str_nat (t div 10) @ ''.'' @ str_nat (t mod 10))"

section \<open>Formatter (app.py, lines 52-76)\<close>

text \<open>
  The argument is \<^verbatim>\<open>None\<close> or an integer (yt-dlp's \<^verbatim>\<open>duration\<close> and
  \<^verbatim>\<open>view_count\<close>); \<^verbatim>\<open>not duration\<close> holds for \<^verbatim>\<open>None\<close> and for \<open>0\<close>.
  \<^verbatim>\<open>//\<close> and \<^verbatim>\<open>%\<close> are floor division and its remainder, as \<open>div\<close> and \<open>mod\<close>
  on \<^typ>\<open>int\<close>.
\<close>

definition falsy :: "int option \<Rightarrow> bool" where
  "falsy v = (v = None \<or> v = Some 0)"

definition format_duration :: "int option \<Rightarrow> string" where
  "format_duration duration =
     (if falsy duration then ''Unknown''
      else let d = the duration;
               hours = d div 3600;
               minutes = (d mod 3600) div 60;
               seconds = d mod 60
           in if 0 < hours
              then str_int hours @ '':'' @ fmt_02d minutes @ '':'' @ fmt_02d seconds
              else str_int minutes @ '':'' @ fmt_02d seconds)"

definition format_views :: "int option \<Rightarrow> py_error + string" where
  "format_views views =
     (if falsy views then Inr ''Unknown''
      else let v = the views
           in if 1000000 \<le> v
              then (case int_truediv v 1000000 of
                      Inl e \<Rightarrow> Inl e | Inr q \<Rightarrow> Inr (fmt_1f q @ ''M''))
              else if 1000 \<le> v
              then (case int_truediv v 1000 of
                      Inl e \<Rightarrow> Inl e | Inr q \<Rightarrow> Inr (fmt_1f q @ ''K''))
              else Inr (str_int v))"

section \<open>Identifier Extractor: \<^verbatim>\<open>get_video_id\<close> (app.py, lines 145-166)\<close>

text \<open>
  \<^verbatim>\<open>urlparse\<close> and \<^verbatim>\<open>parse_qs\<close> belong to Python's standard library, not to the
  program: the program's functions take them as a parameter \<open>L\<close>, so what is proved
  holds for whatever these two functions return. Of a parse result the program reads
  the fields \<^verbatim>\<open>netloc\<close>, \<^verbatim>\<open>path\<close> and \<^verbatim>\<open>query\<close>; \<^verbatim>\<open>parse_qs\<close> returns a dictionary
  from parameter names to the lists of their values.
\<close>

record parse_result =
  netloc :: string
  path :: string
  query :: string

record pylib =
  urlparse :: "string \<Rightarrow> py_error + parse_result"
  parse_qs :: "string \<Rightarrow> py_error + (string \<rightharpoonup> string list)"

text \<open>\<^verbatim>\<open>s.lower()\<close> on the characters with code points 0 to 255.\<close>

definition lower_char :: "char \<Rightarrow> char" where
  "lower_char c =
     (let n = (of_char c :: nat)
      in if (65 \<le> n \<and> n \<le> 90) \<or> (192 \<le> n \<and> n \<le> 214) \<or> (216 \<le> n \<and> n \<le> 222)
         then char_of (n + 32) else c)"

definition lower :: "string \<Rightarrow> string" where
  "lower s = map lower_char s"

definition youtube_domains :: "string list" where
  "youtube_domains = [''youtube.com'', ''www.youtube.com'', ''m.youtube.com'', ''youtu.be'']"

text \<open>
  The body of the \<^verbatim>\<open>try\<close> block. \<^verbatim>\<open>query_params.get('v', [None])[0]\<close> raises
  \<^verbatim>\<open>IndexError\<close> on an empty list of values.
\<close>

definition get_video_id_body :: "pylib \<Rightarrow> string \<Rightarrow> py_error + string option" where
  "get_video_id_body L url =
     (case urlparse L url of
        Inl e \<Rightarrow> Inl e
      | Inr parsed_url \<Rightarrow>
          let domain = lower (netloc parsed_url)
          in if list_ex (\<lambda>youtube_domain. str_in youtube_domain domain) youtube_domains
             then if str_in ''youtu.be'' domain
                  then Inr (if path parsed_url \<noteq> [] then Some (drop 1 (path parsed_url))
                            else None)
                  else (case parse_qs L (query parsed_url) of
                          Inl e \<Rightarrow> Inl e
                        | Inr query_params \<Rightarrow>
                            (case (case query_params ''v'' of
                                     None \<Rightarrow> [None] | Some vs \<Rightarrow> map Some vs) of
                               [] \<Rightarrow> Inl IndexError
                             | v # _ \<Rightarrow> Inr v))
             else Inr None)"

text \<open>The function: \<^verbatim>\<open>except Exception\<close> logs and returns \<^verbatim>\<open>None\<close>.\<close>

definition get_video_id :: "pylib \<Rightarrow> string \<Rightarrow> string option" where
  "get_video_id L url = (case get_video_id_body L url of Inl e \<Rightarrow> None | Inr r \<Rightarrow> r)"

text \<open>\<^verbatim>\<open>not video_id\<close>: the identifier is \<^verbatim>\<open>None\<close> or the empty string.\<close>

definition no_video_id :: "string option \<Rightarrow> bool" where
  "no_video_id video_id = (video_id = None \<or> video_id = Some [])"

subsection \<open>A reference library\<close>

text \<open>
  For concrete inputs, \<open>cpython_lib\<close> follows CPython 3.11's \<^verbatim>\<open>urllib.parse\<close>:
  \<^verbatim>\<open>urlsplit\<close> strips leading control characters and spaces, removes tab, carriage
  return and line feed, splits a scheme off at the first colon, a network location
  after \<^verbatim>\<open>//\<close> up to the first of \<^verbatim>\<open>/?#\<close>, then the fragment and the query;
  \<^verbatim>\<open>urlparse\<close> cuts the parameters off the last path segment. Two parts are outside
  the reference library: the validation of a host in balanced square brackets (it is
  accepted as it is), and percent escapes from \<^verbatim>\<open>%80\<close> on (Python decodes them as
  UTF-8; they are kept undecoded here).
\<close>

definition scheme_chars :: "char list" where
  "scheme_chars = ''abcdefghijklmnopqrstuvwxyzABCDEFGHIJKLMNOPQRSTUVWXYZ0123456789+-.''"

definition uses_params :: "string list" where
  "uses_params = ['''', ''ftp'', ''hdl'', ''prospero'', ''http'', ''imap'', ''https'', ''shttp'',
     ''rtsp'', ''rtsps'', ''rtspu'', ''sip'', ''sips'', ''mms'', ''sftp'', ''tel'']"

definition ascii_alpha :: "char \<Rightarrow> bool" where
  "ascii_alpha c = (let n = (of_char c :: nat) in (65 \<le> n \<and> n \<le> 90) \<or> (97 \<le> n \<and> n \<le> 122))"

definition splitparams :: "string \<Rightarrow> string" where
  "splitparams url =
     (if CHR ''/'' \<in> set url
      then let last_segment = rev (takeWhile (\<lambda>c. c \<noteq> CHR ''/'') (rev url))
           in take (length url - length last_segment) url
              @ takeWhile (\<lambda>c. c \<noteq> CHR '';'') last_segment
      else takeWhile (\<lambda>c. c \<noteq> CHR '';'') url)"

definition cpython_urlparse :: "string \<Rightarrow> py_error + parse_result" where
  "cpython_urlparse url0 =
     (let url1 = filter (\<lambda>c. c \<notin> {CHR 0x09, CHR 0x0D, CHR 0x0A})
                   (dropWhile (\<lambda>c. (of_char c :: nat) \<le> 32) url0);
          pre = takeWhile (\<lambda>c. c \<noteq> CHR '':'') url1;
          has_scheme = (CHR '':'' \<in> set url1 \<and> pre \<noteq> [] \<and> ascii_alpha (hd pre)
                        \<and> list_all (\<lambda>c. c \<in> set scheme_chars) pre);
          scheme = (if has_scheme then lower pre else []);
          url2 = (if has_scheme then drop (length pre + 1) url1 else url1);
          has_netloc = (take 2 url2 = ''//'');
          nl = (if has_netloc then takeWhile (\<lambda>c. c \<notin> set ''/?#'') (drop 2 url2) else []);
          url3 = (if has_netloc then dropWhile (\<lambda>c. c \<notin> set ''/?#'') (drop 2 url2) else url2)
      in if (CHR ''['' \<in> set nl) \<noteq> (CHR '']'' \<in> set nl) then Inl ValueError
         else let url4 = takeWhile (\<lambda>c. c \<noteq> CHR ''#'') url3;
                  url5 = takeWhile (\<lambda>c. c \<noteq> CHR ''?'') url4;
                  q = drop 1 (dropWhile (\<lambda>c. c \<noteq> CHR ''?'') url4)
              in Inr \<lparr>netloc = nl,
                      path = (if scheme \<in> set uses_params \<and> CHR '';'' \<in> set url5
                              then splitparams url5 else url5),
                      query = q\<rparr>)"

fun split_on :: "char \<Rightarrow> string \<Rightarrow> string list" where
  "split_on sep [] = [[]]"
| "split_on sep (c # cs) =
     (if c = sep then [] # split_on sep cs
      else case split_on sep cs of [] \<Rightarrow> [[c]] | piece # pieces \<Rightarrow> (c # piece) # pieces)"

definition hex_val :: "char \<Rightarrow> nat option" where
  "hex_val c =
     (let n = (of_char c :: nat)
      in if 48 \<le> n \<and> n \<le> 57 then Some (n - 48)
         else if 65 \<le> n \<and> n \<le> 70 then Some (n - 55)
         else if 97 \<le> n \<and> n \<le> 102 then Some (n - 87)
         else None)"

fun unquote :: "string \<Rightarrow> string" where
  "unquote (c # a # b # rest) =
     (case (c = CHR ''%'', hex_val a, hex_val b) of
        (True, Some h, Some l) \<Rightarrow>
          if 16 * h + l < 128 then char_of (16 * h + l) # unquote rest
          else c # unquote (a # b # rest)
      | _ \<Rightarrow> c # unquote (a # b # rest))"
| "unquote cs = cs"

definition unquote_plus :: "string \<Rightarrow> string" where
  "unquote_plus s = unquote (replace_char CHR ''+'' CHR '' '' s)"

definition parse_qsl :: "string \<Rightarrow> (string \<times> string) list" where
  "parse_qsl qs =
     concat (map (\<lambda>name_value.
        let name = takeWhile (\<lambda>c. c \<noteq> CHR ''='') name_value;
            val = drop 1 (dropWhile (\<lambda>c. c \<noteq> CHR ''='') name_value)
        in if val \<noteq> [] then [(unquote_plus name, unquote_plus val)] else [])
       (split_on CHR ''&'' qs))"

definition cpython_parse_qs :: "string \<Rightarrow> py_error + (string \<rightharpoonup> string list)" where
  "cpython_parse_qs qs =
     Inr (\<lambda>name. let vs = map snd (filter (\<lambda>nv. fst nv = name) (parse_qsl qs))
                  in if vs = [] then None else Some vs)"

definition cpython_lib :: pylib where
  "cpython_lib = \<lparr>urlparse = cpython_urlparse, parse_qs = cpython_parse_qs\<rparr>"

section \<open>Job Tracker: the two tables and \<^verbatim>\<open>progress_hook\<close> (app.py, lines 23-25, 168-187)\<close>

text \<open>
  A ProgressRecord is a dictionary; a key that is absent or holds \<^verbatim>\<open>None\<close> is
  \<open>None\<close> here. An error text is a literal of the program or \<^verbatim>\<open>str(e)\<close> of a caught
  exception \<open>e\<close>.
\<close>

datatype message = Text string | StrOf py_error

record progress_record =
  progress :: pyfloat
  status :: string
  filename :: "string option"
  filepath :: "string option"
  start_time :: rat
  downloaded_bytes :: "int option"
  total_bytes :: "int option"
  end_time :: "rat option"
  error :: "message option"

record metadata_record =
  md_title :: unicode
  md_download_time :: rat
  md_url :: "string option"
  md_quality :: "string option"
  md_audio_only :: "bool option"
  md_filename :: "string option"

record app_state =
  download_progress :: "string \<rightharpoonup> progress_record"
  download_metadata :: "string \<rightharpoonup> metadata_record"

text \<open>
  The dictionary \<^verbatim>\<open>d\<close> that yt-dlp passes to a progress hook. A byte count is absent,
  \<^verbatim>\<open>None\<close> or an integer (an estimate that yt-dlp gives as a float is not
  represented).
\<close>

datatype 'a pyfield = Absent | PyNone | Val 'a

record hook_dict =
  d_status :: string
  d_total_bytes :: "int pyfield"
  d_total_bytes_estimate :: "int pyfield"
  d_downloaded_bytes :: "int pyfield"
  d_filename :: "string option"

text \<open>\<^verbatim>\<open>d.get('total_bytes') or d.get('total_bytes_estimate') or 1\<close>.\<close>

definition effective_total :: "hook_dict \<Rightarrow> int" where
  "effective_total d =
     (case d_total_bytes d of
        Val n \<Rightarrow> if n \<noteq> 0 then n
                 else (case d_total_bytes_estimate d of
                         Val m \<Rightarrow> if m \<noteq> 0 then m else 1 | _ \<Rightarrow> 1)
      | _ \<Rightarrow> (case d_total_bytes_estimate d of
                 Val m \<Rightarrow> if m \<noteq> 0 then m else 1 | _ \<Rightarrow> 1))"

text \<open>\<^verbatim>\<open>d.get('downloaded_bytes', 0)\<close>; \<^verbatim>\<open>None / total_bytes\<close> raises \<^verbatim>\<open>TypeError\<close>.\<close>

definition reported_downloaded :: "hook_dict \<Rightarrow> py_error + int" where
  "reported_downloaded d =
     (case d_downloaded_bytes d of Absent \<Rightarrow> Inr 0 | PyNone \<Rightarrow> Inl TypeError | Val n \<Rightarrow> Inr n)"

definition set_progress :: "string \<Rightarrow> progress_record \<Rightarrow> app_state \<Rightarrow> app_state" where
  "set_progress video_id r st = st\<lparr>download_progress := (download_progress st)(video_id \<mapsto> r)\<rparr>"

definition set_metadata :: "string \<Rightarrow> metadata_record \<Rightarrow> app_state \<Rightarrow> app_state" where
  "set_metadata video_id m st = st\<lparr>download_metadata := (download_metadata st)(video_id \<mapsto> m)\<rparr>"

text \<open>
  The hook returns the exception it raised, if any, and the tables as it left them
  (the writes before a \<^verbatim>\<open>KeyError\<close> on \<^verbatim>\<open>d['filename']\<close> stay).
\<close>

definition progress_hook :: "hook_dict \<Rightarrow> string \<Rightarrow> app_state \<Rightarrow> py_error option \<times> app_state" where
  "progress_hook d video_id st =
     (case download_progress st video_id of
        None \<Rightarrow> (None, st)
      | Some r \<Rightarrow>
          if d_status d = ''downloading''
          then (case reported_downloaded d of
                  Inl e \<Rightarrow> (Some e, st)
                | Inr downloaded \<Rightarrow>
                    (case int_truediv downloaded (effective_total d) of
                       Inl e \<Rightarrow> (Some e, st)
                     | Inr q \<Rightarrow>
                         (None, set_progress video_id
                            (r\<lparr>progress := float_times_100 q, status := ''downloading'',
                               downloaded_bytes := Some downloaded,
                               total_bytes := Some (effective_total d)\<rparr>) st)))
          else if d_status d = ''finished''
          then (let r1 = r\<lparr>progress := Finite 100, status := ''processing''\<rparr>
                in case d_filename d of
                     None \<Rightarrow> (Some (KeyError ''filename''), set_progress video_id r1 st)
                   | Some f \<Rightarrow> (None, set_progress video_id (r1\<lparr>filepath := Some f\<rparr>) st))
          else (None, st))"

section \<open>The format directive (app.py, lines 200-228)\<close>

record postprocessor =
  pp_key :: string
  preferredcodec :: string
  preferredquality :: string

record ydl_opts =
  outtmpl :: string
  quiet :: bool
  no_warnings :: bool
  restrictfilenames :: bool
  ydl_format :: string
  postprocessors :: "postprocessor list"

definition quality_map :: "(string \<times> string) list" where
  "quality_map =
     [(''144p'', ''bestvideo[height<=144]+bestaudio/best[height<=144]''),
      (''240p'', ''bestvideo[height<=240]+bestaudio/best[height<=240]''),
      (''360p'', ''bestvideo[height<=360]+bestaudio/best[height<=360]''),
      (''480p'', ''bestvideo[height<=480]+bestaudio/best[height<=480]''),
      (''720p'', ''bestvideo[height<=720]+bestaudio/best[height<=720]''),
      (''1080p'', ''bestvideo[height<=1080]+bestaudio/best[height<=1080]''),
      (''highest'', ''bestvideo+bestaudio/best'')]"

text \<open>
  The requested quality is \<^verbatim>\<open>None\<close> or a string;
  \<^verbatim>\<open>quality_map.get(quality, 'bestvideo+bestaudio/best')\<close>.
\<close>

definition quality_format :: "string option \<Rightarrow> string" where
  "quality_format quality =
     (case quality of
        None \<Rightarrow> ''bestvideo+bestaudio/best''
      | Some q \<Rightarrow> (case map_of quality_map q of
                     Some f \<Rightarrow> f | None \<Rightarrow> ''bestvideo+bestaudio/best''))"

definition DOWNLOAD_FOLDER :: string where
  "DOWNLOAD_FOLDER = ''downloads''"

text \<open>\<^verbatim>\<open>os.path.join(a, b)\<close> on POSIX paths.\<close>

definition path_join :: "string \<Rightarrow> string \<Rightarrow> string" where
  "path_join a b =
     (if startswith b ''/'' then b
      else if a = [] \<or> last a = CHR ''/'' then a @ b
      else a @ ''/'' @ b)"

definition make_ydl_opts :: "string option \<Rightarrow> bool \<Rightarrow> ydl_opts" where
  "make_ydl_opts quality audio_only =
     \<lparr>outtmpl = path_join DOWNLOAD_FOLDER ''%(title)s_%(id)s.%(ext)s'',
      quiet = False, no_warnings = False, restrictfilenames = True,
      ydl_format = (if audio_only then ''bestaudio/best'' else quality_format quality),
      postprocessors =
        (if audio_only
         then [\<lparr>pp_key = ''FFmpegExtractAudio'', preferredcodec = ''mp3'',
                 preferredquality = ''192''\<rparr>]
         else [])\<rparr>"

section \<open>The download directory\<close>

text \<open>
  The file system as the program reads it: \<^verbatim>\<open>os.listdir(DOWNLOAD_FOLDER)\<close> (the names
  in the order the call returns them, or the \<^verbatim>\<open>OSError\<close> it raises) and, for a
  path, what \<^verbatim>\<open>os.stat\<close> finds there. One value of \<open>filesys\<close> is one moment: a
  file that is there when it is tested is there when it is read.
\<close>

record file_stat =
  is_file :: bool
  st_size :: nat
  st_ctime :: rat
  st_mtime :: rat

record filesys =
  listdir :: "py_error + string list"
  stat :: "string \<rightharpoonup> file_stat"

text \<open>\<^verbatim>\<open>os.path.exists(p) and os.path.getsize(p) > 0\<close>.\<close>

definition exists_nonempty :: "filesys \<Rightarrow> string \<Rightarrow> bool" where
  "exists_nonempty fs p = (case stat fs p of None \<Rightarrow> False | Some s \<Rightarrow> 0 < st_size s)"

text \<open>\<^verbatim>\<open>os.path.isfile(p) and os.path.getsize(p) > 0\<close> for the entry \<open>f\<close> of the directory.\<close>

definition nonempty_file :: "filesys \<Rightarrow> string \<Rightarrow> bool" where
  "nonempty_file fs f =
     (case stat fs (path_join DOWNLOAD_FOLDER f) of
        None \<Rightarrow> False | Some s \<Rightarrow> is_file s \<and> 0 < st_size s)"

text \<open>\<^verbatim>\<open>os.path.basename\<close> and \<^verbatim>\<open>os.path.splitext\<close> on POSIX paths.\<close>

definition basename :: "string \<Rightarrow> string" where
  "basename p = rev (takeWhile (\<lambda>c. c \<noteq> CHR ''/'') (rev p))"

definition splitext :: "string \<Rightarrow> string \<times> string" where
  "splitext p =
     (let base = basename p;
          ext = rev (takeWhile (\<lambda>c. c \<noteq> CHR ''.'') (rev base));
          stem = take (length base - length ext - 1) base
      in if CHR ''.'' \<in> set base \<and> (\<exists>c \<in> set stem. c \<noteq> CHR ''.'')
         then (take (length p - length ext - 1) p, CHR ''.'' # ext)
         else (p, []))"

section \<open>Janitor: \<^verbatim>\<open>cleanup_old_files\<close> (app.py, lines 38-50)\<close>

definition remove_file :: "string \<Rightarrow> filesys \<Rightarrow> filesys" where
  "remove_file f fs =
     fs\<lparr>listdir := (case listdir fs of Inl e \<Rightarrow> Inl e | Inr names \<Rightarrow> Inr (removeAll f names)),
        stat := (stat fs)(path_join DOWNLOAD_FOLDER f := None)\<rparr>"

definition cleanup_old_files :: "rat \<Rightarrow> filesys \<Rightarrow> filesys" where
  "cleanup_old_files now fs =
     (case listdir fs of
        Inl e \<Rightarrow> fs
      | Inr names \<Rightarrow>
          fold (\<lambda>f fs'.
                  case stat fs' (path_join DOWNLOAD_FOLDER f) of
                    None \<Rightarrow> fs'
                  | Some s \<Rightarrow> if is_file s \<and> 3600 < now - st_ctime s
                              then remove_file f fs' else fs')
            names fs)"

section \<open>Download Orchestrator: \<^verbatim>\<open>download_video\<close> (app.py, lines 189-326)\<close>

subsection \<open>File discovery (lines 255-298)\<close>

text \<open>
  \<open>predicted\<close> is what \<^verbatim>\<open>ydl.prepare_filename(info)\<close> returned. The list is sorted by
  modification time, latest first; Python's sort is stable, also with
  \<^verbatim>\<open>reverse=True\<close>, as \<^const>\<open>sort_key\<close> is.
\<close>

definition expected_filename :: "bool \<Rightarrow> string \<Rightarrow> string" where
  "expected_filename audio_only predicted =
     (if audio_only then fst (splitext predicted) @ ''.mp3'' else predicted)"

definition files_with_time :: "filesys \<Rightarrow> string list \<Rightarrow> (string \<times> string \<times> rat) list" where
  "files_with_time fs names =
     map (\<lambda>f. (path_join DOWNLOAD_FOLDER f, f,
                st_mtime (the (stat fs (path_join DOWNLOAD_FOLDER f)))))
       (filter (nonempty_file fs) names)"

definition find_actual_file :: "filesys \<Rightarrow> string \<Rightarrow> string \<Rightarrow> string option" where
  "find_actual_file fs video_id expected =
     (if exists_nonempty fs expected then Some expected
      else case listdir fs of
             Inl e \<Rightarrow> None
           | Inr names \<Rightarrow>
               (case find (\<lambda>f. nonempty_file fs f \<and> str_in video_id f) names of
                  Some f \<Rightarrow> Some (path_join DOWNLOAD_FOLDER f)
                | None \<Rightarrow>
                    (case sort_key (\<lambda>x. - snd (snd x)) (files_with_time fs names) of
                       [] \<Rightarrow> None
                     | x # _ \<Rightarrow> Some (fst x))))"

subsection \<open>The collaborator\<close>

text \<open>
  One call of yt-dlp, as the program sees it: the dictionaries passed to the progress
  hook, in order; what \<^verbatim>\<open>extract_info\<close> did (it raised, or it returned an \<^verbatim>\<open>info\<close>
  whose \<^verbatim>\<open>title\<close> is absent or a string); what \<^verbatim>\<open>prepare_filename\<close> did; the
  download directory after the two seconds of sleep; and the clock readings. An
  exception raised by a hook leaves \<^verbatim>\<open>extract_info\<close> as it is (yt-dlp does not catch
  it).
\<close>

record collab_run =
  hook_calls :: "hook_dict list"
  extract_info :: "py_error + unicode option"
  prepare_filename :: "py_error + string"
  fs_after :: filesys
  time_start :: rat
  time_metadata :: rat
  time_end :: rat

fun run_hooks :: "hook_dict list \<Rightarrow> string \<Rightarrow> app_state \<Rightarrow> py_error option \<times> app_state" where
  "run_hooks [] video_id st = (None, st)"
| "run_hooks (d # ds) video_id st =
     (case progress_hook d video_id st of
        (Some e, st') \<Rightarrow> (Some e, st')
      | (None, st') \<Rightarrow> run_hooks ds video_id st')"

subsection \<open>The function\<close>

text \<open>What a block of statements did: it ran to its \<^verbatim>\<open>return\<close>, or it raised.\<close>

datatype 'a outcome = Returned 'a app_state | Raised py_error app_state

type_synonym download_result = "string option \<times> message option"

text \<open>Lines 230-237.\<close>

definition init_progress :: "string \<Rightarrow> rat \<Rightarrow> app_state \<Rightarrow> app_state" where
  "init_progress video_id now st =
     set_progress video_id
       \<lparr>progress = Finite 0, status = ''starting'', filename = None, filepath = None,
        start_time = now, downloaded_bytes = None, total_bytes = None, end_time = None,
        error = None\<rparr> st"

text \<open>Lines 243-318: from the return of \<^verbatim>\<open>extract_info\<close> to the end of the \<^verbatim>\<open>try\<close> block.\<close>

definition after_download ::
  "string \<Rightarrow> string \<Rightarrow> string option \<Rightarrow> bool \<Rightarrow> unicode option \<Rightarrow> collab_run \<Rightarrow> app_state
     \<Rightarrow> download_result outcome" where
  "after_download video_id url quality audio_only info_title run st =
     (let st1 = set_metadata video_id
                  \<lparr>md_title = (case info_title of None \<Rightarrow> code_points ''Unknown'' | Some t \<Rightarrow> t),
                   md_download_time = time_metadata run, md_url = Some url,
                   md_quality = quality, md_audio_only = Some audio_only,
                   md_filename = None\<rparr> st
      in case prepare_filename run of
           Inl e \<Rightarrow> Raised e st1
         | Inr predicted \<Rightarrow>
             (case find_actual_file (fs_after run) video_id
                     (expected_filename audio_only predicted) of
                Some actual_file \<Rightarrow>
                  (case download_progress st1 video_id of
                     None \<Rightarrow> Raised (KeyError video_id) st1
                   | Some r \<Rightarrow>
                       let st2 = set_progress video_id
                                   (r\<lparr>filename := Some (basename actual_file),
                                      filepath := Some actual_file,
                                      status := ''completed'',
                                      end_time := Some (time_end run)\<rparr>) st1
                       in (case download_metadata st2 video_id of
                             None \<Rightarrow> Raised (KeyError video_id) st2
                           | Some m \<Rightarrow>
                               Returned (Some actual_file, None)
                                 (set_metadata video_id
                                    (m\<lparr>md_filename := Some (basename actual_file)\<rparr>) st2)))
              | None \<Rightarrow>
                  (case download_progress st1 video_id of
                     None \<Rightarrow> Raised (KeyError video_id) st1
                   | Some r \<Rightarrow>
                       Returned (None, Some (Text ''Download completed but file not found''))
                         (set_progress video_id
                            (r\<lparr>status := ''error'',
                               error := Some (Text ''Download completed but file not found'')\<rparr>)
                            st1))))"

text \<open>Lines 320-326: the \<^verbatim>\<open>except\<close> clause.\<close>

definition on_exception :: "string \<Rightarrow> py_error \<Rightarrow> app_state \<Rightarrow> download_result \<times> app_state" where
  "on_exception video_id e st =
     ((None, Some (StrOf e)),
      (case download_progress st video_id of
         None \<Rightarrow> st
       | Some r \<Rightarrow> set_progress video_id (r\<lparr>status := ''error'', error := Some (StrOf e)\<rparr>) st))"

text \<open>
  The whole function. \<open>ydl\<close> is the collaborator: from the options, the URL and the
  download directory that \<^verbatim>\<open>cleanup_old_files\<close> left, the run it makes.
\<close>

definition download_video ::
  "pylib \<Rightarrow> (ydl_opts \<Rightarrow> string \<Rightarrow> filesys \<Rightarrow> collab_run) \<Rightarrow> rat \<Rightarrow> filesys
     \<Rightarrow> string \<Rightarrow> string option \<Rightarrow> bool \<Rightarrow> app_state \<Rightarrow> download_result \<times> app_state" where
  "download_video L ydl now fs url quality audio_only st =
     (let video_id = get_video_id L url
      in if no_video_id video_id
         then ((None, Some (Text ''Could not extract video ID from URL'')), st)
         else let vid = the video_id;
                  run = ydl (make_ydl_opts quality audio_only) url (cleanup_old_files now fs);
                  st0 = init_progress vid (time_start run) st
              in case (case run_hooks (hook_calls run) vid st0 of
                         (Some e, st1) \<Rightarrow> Raised e st1
                       | (None, st1) \<Rightarrow>
                           (case extract_info run of
                              Inl e \<Rightarrow> Raised e st1
                            | Inr info_title \<Rightarrow>
                                after_download vid url quality audio_only info_title run st1)) of
                   Returned res st' \<Rightarrow> (res, st')
                 | Raised e st' \<Rightarrow> on_exception vid e st')"

section \<open>HTTP endpoints (app.py, lines 356-523)\<close>

datatype http_response =
    JsonError nat string
  | JsonVideoId string
  | JsonProgress progress_record
  | JsonProgressNotFound
  | SendFile string unicode
  | ServerError py_error

text \<open>
  \<open>JsonError code msg\<close> is the JSON body \<^verbatim>\<open>{'error': msg}\<close> with the HTTP status
  \<open>code\<close>; \<open>JsonProgressNotFound\<close> is \<^verbatim>\<open>{'progress': 0, 'status': 'not found'}\<close>;
  \<open>SendFile p n\<close> sends the file at \<open>p\<close> as an attachment named \<open>n\<close>;
  \<open>ServerError e\<close> is an exception that leaves the view function.
\<close>

record download_request =
  req_url :: "string option"
  req_quality :: "string option"
  req_audio_only :: bool

definition forget :: "string \<Rightarrow> app_state \<Rightarrow> app_state" where
  "forget video_id st =
     st\<lparr>download_progress := (download_progress st)(video_id := None),
        download_metadata := (download_metadata st)(video_id := None)\<rparr>"

text \<open>
  \<^verbatim>\<open>/api/download\<close>. The third component is the thread it starts: the arguments of
  \<^verbatim>\<open>download_video\<close>.
\<close>

definition download ::
  "pylib \<Rightarrow> download_request \<Rightarrow> app_state
     \<Rightarrow> http_response \<times> app_state \<times> (string \<times> string option \<times> bool) option" where
  "download L req st =
     (case req_url req of
        None \<Rightarrow> (JsonError 200 ''No URL provided'', st, None)
      | Some url \<Rightarrow>
          if url = [] then (JsonError 200 ''No URL provided'', st, None)
          else let video_id = get_video_id L url
               in if no_video_id video_id
                  then (JsonError 200 ''Could not extract video ID from URL'', st, None)
                  else (JsonVideoId (the video_id), forget (the video_id) st,
                        Some (url, req_quality req, req_audio_only req)))"

text \<open>\<^verbatim>\<open>/api/progress/<video_id>\<close>.\<close>

definition progress_endpoint :: "filesys \<Rightarrow> string \<Rightarrow> app_state \<Rightarrow> http_response \<times> app_state" where
  "progress_endpoint fs video_id st =
     (case download_progress st video_id of
        None \<Rightarrow> (JsonProgressNotFound, st)
      | Some r \<Rightarrow>
          let progress_data = r
          in (JsonProgress
                (if status progress_data = ''completed''
                 then (case filename progress_data of
                         None \<Rightarrow> progress_data
                       | Some f \<Rightarrow>
                           if f \<noteq> [] \<and> stat fs (path_join DOWNLOAD_FOLDER f) = None
                           then progress_data\<lparr>status := ''error'',
                                  error := Some (Text ''Downloaded file not found'')\<rparr>
                           else progress_data)
                 else progress_data),
              st))"

text \<open>
  \<^verbatim>\<open>/api/download_file/<video_id>\<close>. Lines 408-441, the fallback when the identifier
  has no MetadataRecord: the result is the 404 response or the tables to go on with.
\<close>

definition recent_files :: "rat \<Rightarrow> filesys \<Rightarrow> string list \<Rightarrow> (string \<times> string \<times> rat) list" where
  "recent_files now fs names =
     concat (map (\<lambda>f. case stat fs (path_join DOWNLOAD_FOLDER f) of
                         None \<Rightarrow> []
                       | Some s \<Rightarrow>
                           if is_file s \<and> now - st_ctime s < 300 \<and> 0 < st_size s
                           then [(path_join DOWNLOAD_FOLDER f, f, now - st_ctime s)]
                           else [])
               names)"

definition fallback_metadata :: "rat \<Rightarrow> filesys \<Rightarrow> string \<Rightarrow> app_state \<Rightarrow> http_response + app_state" where
  "fallback_metadata now fs video_id st =
     (case listdir fs of
        Inl e \<Rightarrow> Inl (JsonError 404 ''Download not found or expired'')
      | Inr names \<Rightarrow>
          (case sort_key (\<lambda>x. snd (snd x)) (recent_files now fs names) of
             [] \<Rightarrow> Inl (JsonError 404 ''Download not found or expired'')
           | most_recent # _ \<Rightarrow>
               Inr (set_metadata video_id
                      \<lparr>md_title = code_points ''Downloaded Video'', md_download_time = now,
                       md_url = None, md_quality = None, md_audio_only = None,
                       md_filename = Some (fst (snd most_recent))\<rparr> st)))"

text \<open>
  Lines 443-523. The third component is the identifier whose records the cleanup
  thread deletes five seconds later (\<open>forget\<close>), if one is started.
  \<^verbatim>\<open>send_file\<close> raises on a path that is not a regular file.
\<close>

definition serve_file ::
  "filesys \<Rightarrow> string \<Rightarrow> metadata_record \<Rightarrow> app_state
     \<Rightarrow> http_response \<times> app_state \<times> string option" where
  "serve_file fs video_id m st =
     (case md_filename m of
        None \<Rightarrow> (ServerError (KeyError ''filename''), st, None)
      | Some fname \<Rightarrow>
          let fpath = path_join DOWNLOAD_FOLDER fname
          in if str_in ''..'' fname \<or> startswith fname ''/''
             then (JsonError 400 ''Invalid filename'', st, None)
             else if exists_nonempty fs fpath
             then (if is_file (the (stat fs fpath))
                   then (SendFile fpath
                           (sanitize_filename (md_title m) @ code_points (snd (splitext fname))),
                         st, Some video_id)
                   else (JsonError 500 ''Error sending file'', st, None))
             else (case listdir fs of
                     Inl e \<Rightarrow> (JsonError 404 ''File not found'', st, None)
                   | Inr names \<Rightarrow>
                       (case find (\<lambda>f. nonempty_file fs f
                                        \<and> (str_in video_id f
                                           \<or> startswith f (take 20 (fst (splitext fname)))))
                               names of
                          Some f \<Rightarrow>
                            (SendFile (path_join DOWNLOAD_FOLDER f) (code_points f),
                             set_metadata video_id (m\<lparr>md_filename := Some f\<rparr>) st,
                             Some video_id)
                        | None \<Rightarrow> (JsonError 404 ''File not found'', st, None))))"

definition download_file ::
  "rat \<Rightarrow> filesys \<Rightarrow> string \<Rightarrow> app_state \<Rightarrow> http_response \<times> app_state \<times> string option" where
  "download_file now fs video_id st =
     (case download_metadata st video_id of
        Some m \<Rightarrow> serve_file fs video_id m st
      | None \<Rightarrow>
          (case fallback_metadata now fs video_id st of
             Inl resp \<Rightarrow> (resp, st, None)
           | Inr st' \<Rightarrow>
               (case download_metadata st' video_id of
                  None \<Rightarrow> (JsonError 404 ''Download not found or expired'', st', None)
                | Some m \<Rightarrow> serve_file fs video_id m st')))"

section \<open>Example inputs\<close>

text \<open>An empty job table, a progress tick that reports no total, and an empty directory.\<close>

definition no_jobs :: app_state where
  "no_jobs = \<lparr>download_progress = Map.empty, download_metadata = Map.empty\<rparr>"

definition tick_without_total :: hook_dict where
  "tick_without_total =
     \<lparr>d_status = ''downloading'', d_total_bytes = Absent, d_total_bytes_estimate = Absent,
      d_downloaded_bytes = Val 2048, d_filename = None\<rparr>"

definition empty_dir :: filesys where
  "empty_dir = \<lparr>listdir = Inr [], stat = Map.empty\<rparr>"

text \<open>A collaborator whose \<^verbatim>\<open>extract_info\<close> raises.\<close>

definition failing_ydl :: "ydl_opts \<Rightarrow> string \<Rightarrow> filesys \<Rightarrow> collab_run" where
  "failing_ydl opts url fs =
     \<lparr>hook_calls = [], extract_info = Inl (CollaboratorError ''Unsupported URL''),
      prepare_filename = Inl (CollaboratorError ''Unsupported URL''), fs_after = fs,
      time_start = 0, time_metadata = 0, time_end = 0\<rparr>"

text \<open>
  A MetadataRecord whose filename leaves the download directory, and a file system in
  which a file of that literal name exists.
\<close>

definition traversal_state :: app_state where
  "traversal_state =
     set_metadata ''abc''
       \<lparr>md_title = code_points ''Downloaded Video'', md_download_time = 0, md_url = None,
        md_quality = None, md_audio_only = None, md_filename = Some ''../secret.txt''\<rparr>
       no_jobs"

definition traversal_dir :: filesys where
  "traversal_dir =
     \<lparr>listdir = Inr [],
      stat = [''downloads/../secret.txt'' \<mapsto>
                \<lparr>is_file = True, st_size = 1, st_ctime = 0, st_mtime = 0\<rparr>]\<rparr>"

text \<open>A completed job.\<close>

definition completed_state :: app_state where
  "completed_state =
     set_progress ''abc''
       \<lparr>progress = Finite 100, status = ''completed'', filename = Some ''T_abc.mp4'',
        filepath = Some ''downloads/T_abc.mp4'', start_time = 0, downloaded_bytes = Some 10,
        total_bytes = Some 10, end_time = Some 5, error = None\<rparr> no_jobs"








section \<open>The specification's reading of the short link\<close>


section \<open>The specification's range of the progress field\<close>

text \<open>
  The specification gives the progress field of a ProgressRecord as a percentage from 0
  to 100. \<open>progress_in_range\<close> says so of one value and \<open>progress_ok\<close> of every record
  of the job table. \<open>tick_ok\<close> is the condition on a tick of the collaborator under
  which the code keeps the range: a tick with the status \<^verbatim>\<open>downloading\<close> reports a
  downloaded byte count from 0 to the total that the callback divides by.
\<close>

definition progress_in_range :: "pyfloat \<Rightarrow> bool" where
  "progress_in_range p =
     (case p of Finite x \<Rightarrow> 0 \<le> x \<and> x \<le> 100 | PosInf \<Rightarrow> False | NegInf \<Rightarrow> False)"

definition progress_ok :: "app_state \<Rightarrow> bool" where
  "progress_ok st =
     (\<forall>video_id r. download_progress st video_id = Some r \<longrightarrow>
        progress_in_range (progress r))"


section \<open>Verified properties\<close>

subsection \<open>Filename sanitizer\<close>

text \<open>
  Claim C8. For every input string, of any characters, \<^verbatim>\<open>sanitize_filename\<close> returns
  the input with every occurrence of the nine characters
  \<^verbatim>\<open>< > : " / \ | ? *\<close> (code points 60, 62, 58, 34, 47, 92, 124, 63, 42) removed and
  every space (32) replaced by an underscore (95), cut to its first 150 characters:
  none of the nine characters and no space is left in the result, and the result is at
  most 150 characters long.
\<close>

theorem sanitize_filename_spec:
  "sanitize_filename s =
     take 150 (map (\<lambda>c. if c = 32 then 95 else c)
       (filter (\<lambda>c. c \<notin> {60, 62, 58, 34, 47, 92, 124, 63, 42}) s))
   \<and> set (sanitize_filename s)
       \<inter> of_char
           ` {CHR ''<'', CHR ''>'', CHR '':'', CHR 0x22, CHR ''/'', CHR 0x5C, CHR ''|'',
              CHR ''?'', CHR ''*'', CHR '' ''} = {}
   \<and> length (sanitize_filename s) \<le> 150"
proof -
  have shape: "sanitize_filename s =
     take 150 (map (\<lambda>c. if c = 32 then 95 else c)
       (filter (\<lambda>c. c \<notin> {60, 62, 58, 34, 47, 92, 124, 63, 42}) s))"
    by (simp add: sanitize_filename_def Let_def replace_char_def invalid_chars_def
        code_points_def)
  have clean: "set (sanitize_filename s)
       \<inter> of_char
           ` {CHR ''<'', CHR ''>'', CHR '':'', CHR 0x22, CHR ''/'', CHR 0x5C, CHR ''|'',
              CHR ''?'', CHR ''*'', CHR '' ''} = {}"
    by (auto simp add: shape dest!: in_set_takeD split: if_splits)
  have short: "length (sanitize_filename s) \<le> 150"
    by (simp add: shape)
  from shape clean short show ?thesis by blast
qed

theorem sanitize_filename_spec_witness:
  "sanitize_filename
     (code_points (''a b<c>:d'' @ [CHR 0x22] @ ''/e'' @ [CHR 0x5C] @ ''|f?g*h''))
     = code_points ''a_bcdefgh''
   \<and> sanitize_filename (replicate 200 32 @ [60]) = replicate 150 95
   \<and> sanitize_filename [960, 32, 128512, 47] = [960, 95, 128512]"
  using sanitize_filename_spec
          [of "code_points (''a b<c>:d'' @ [CHR 0x22] @ ''/e'' @ [CHR 0x5C] @ ''|f?g*h'')"]
        sanitize_filename_spec [of "replicate 200 32 @ [60]"]
        sanitize_filename_spec [of "[960, 32, 128512, 47]"]
  by (simp add: code_points_def)

subsection \<open>Formatter\<close>

text \<open>
  Claim C9. The formatter maps duration 0 to "Unknown", 45 to "0:45" and 3661 to
  "1:01:01", and view count 500 to "500", 1500 to "1.5K" and 2000000 to "2.0M".
\<close>

theorem formatter_examples:
  "format_duration (Some 0) = ''Unknown''
   \<and> format_duration (Some 45) = ''0:45''
   \<and> format_duration (Some 3661) = ''1:01:01''
   \<and> format_views (Some 500) = Inr ''500''
   \<and> format_views (Some 1500) = Inr ''1.5K''
   \<and> format_views (Some 2000000) = Inr ''2.0M''"
  by code_simp

subsection \<open>Substrings\<close>

lemma str_in_Nil [simp]: "str_in [] s"
  by (cases s) (simp_all add: startswith_def)

lemma startswith_append: "startswith s (a @ b) \<Longrightarrow> startswith s a"
proof -
  assume "startswith s (a @ b)"
  then have "take (length a) (take (length (a @ b)) s) = take (length a) (a @ b)"
    by (simp add: startswith_def)
  then show ?thesis
    by (simp add: startswith_def min_def)
qed

lemma str_in_prefix: "str_in (a @ b) s \<Longrightarrow> str_in a s"
proof (induction s)
  case Nil
  then show ?case by simp
next
  case (Cons c cs)
  then show ?case by (auto dest: startswith_append)
qed

subsection \<open>Progress callback and unknown identifiers\<close>

text \<open>
  Claim C10. When the identifier has no entry in the progress table, the progress
  callback returns normally and leaves both tables as they are. For any tick at all, the
  set of identifiers that have a ProgressRecord is the same after the callback as before
  (a tick never creates a record), and the metadata table is untouched.
\<close>

theorem progress_hook_unknown_id:
  "(download_progress st video_id = None \<longrightarrow> progress_hook d video_id st = (None, st))
   \<and> dom (download_progress (snd (progress_hook d video_id st))) = dom (download_progress st)
   \<and> download_metadata (snd (progress_hook d video_id st)) = download_metadata st"
  by (auto simp add: progress_hook_def set_progress_def Let_def
      split: option.splits sum.splits if_splits)

theorem progress_hook_unknown_id_witness:
  "download_progress no_jobs ''dQw4w9WgXcQ'' = None
   \<and> progress_hook tick_without_total ''dQw4w9WgXcQ'' no_jobs = (None, no_jobs)
   \<and> dom (download_progress (snd (progress_hook tick_without_total ''abc'' completed_state)))
       = {''abc''}"
  using progress_hook_unknown_id [of no_jobs "''dQw4w9WgXcQ''" tick_without_total]
    progress_hook_unknown_id [of completed_state "''abc''" tick_without_total]
  by (simp add: no_jobs_def completed_state_def set_progress_def)

subsection \<open>Format directive\<close>

text \<open>
  Claim C7. When audio only is requested, the format passed to the collaborator is
  "bestaudio/best" with one postprocessor that extracts the audio as mp3 at bitrate 192.
  Otherwise there is no postprocessor, each label of the ladder 144p, 240p, 360p, 480p,
  720p, 1080p gives the selector that caps the height of the video at the number of the
  label, and every other label (also "highest", and no label) gives
  "bestvideo+bestaudio/best".
\<close>

theorem format_directive:
  "ydl_format (make_ydl_opts quality True) = ''bestaudio/best''
   \<and> postprocessors (make_ydl_opts quality True) =
       [\<lparr>pp_key = ''FFmpegExtractAudio'', preferredcodec = ''mp3'', preferredquality = ''192''\<rparr>]
   \<and> postprocessors (make_ydl_opts quality False) = []
   \<and> (\<forall>h \<in> set [''144'', ''240'', ''360'', ''480'', ''720'', ''1080''].
         ydl_format (make_ydl_opts (Some (h @ ''p'')) False) =
           ''bestvideo[height<='' @ h @ '']+bestaudio/best[height<='' @ h @ '']'')
   \<and> (quality \<notin> Some ` set [''144p'', ''240p'', ''360p'', ''480p'', ''720p'', ''1080p'']
        \<longrightarrow> ydl_format (make_ydl_opts quality False) = ''bestvideo+bestaudio/best'')"
  by (cases quality) (auto simp add: make_ydl_opts_def quality_format_def quality_map_def)

theorem format_directive_witness:
  "ydl_format (make_ydl_opts (Some ''720p'') False) =
     ''bestvideo[height<=720]+bestaudio/best[height<=720]''
   \<and> ydl_format (make_ydl_opts (Some ''4k'') False) = ''bestvideo+bestaudio/best''
   \<and> ydl_format (make_ydl_opts (Some ''highest'') False) = ''bestvideo+bestaudio/best''
   \<and> ydl_format (make_ydl_opts (Some ''720p'') True) = ''bestaudio/best''"
  using format_directive [of "Some ''4k''"] format_directive [of "Some ''highest''"]
    format_directive [of "Some ''720p''"]
  by simp

subsection \<open>Download request without an identifier\<close>

text \<open>
  Claim C6. When a URL was submitted and no identifier can be got from it (the extractor
  returns nothing or the empty string), the download endpoint answers with a JSON error
  body, starts no thread, and leaves the progress table and the metadata table as they
  are; the orchestrator, called on such a URL, returns the error message and leaves both
  tables as they are, too.
\<close>

theorem download_without_identifier:
  "req_url req = Some url
   \<and> (get_video_id L url = None \<or> get_video_id L url = Some []) \<longrightarrow>
     download L req st =
       (JsonError 200 (if url = [] then ''No URL provided''
                       else ''Could not extract video ID from URL''), st, None)
     \<and> download_video L ydl now fs url quality audio_only st =
         ((None, Some (Text ''Could not extract video ID from URL'')), st)"
  by (auto simp add: download_def download_video_def no_video_id_def Let_def)

theorem download_without_identifier_witness:
  "get_video_id cpython_lib ''https://vimeo.com/watch?v=abc'' = None
   \<and> download cpython_lib
        \<lparr>req_url = Some ''https://vimeo.com/watch?v=abc'', req_quality = Some ''720p'',
         req_audio_only = False\<rparr> completed_state =
       (JsonError 200 ''Could not extract video ID from URL'', completed_state, None)
   \<and> download_video cpython_lib failing_ydl 0 empty_dir ''https://vimeo.com/watch?v=abc''
        (Some ''720p'') False completed_state =
       ((None, Some (Text ''Could not extract video ID from URL'')), completed_state)"
proof -
  have h: "get_video_id cpython_lib ''https://vimeo.com/watch?v=abc'' = None"
    by code_simp
  show ?thesis
    using h download_without_identifier
      [of "\<lparr>req_url = Some ''https://vimeo.com/watch?v=abc'', req_quality = Some ''720p'',
            req_audio_only = False\<rparr>" "''https://vimeo.com/watch?v=abc''" cpython_lib
          completed_state failing_ydl 0 empty_dir "Some ''720p''" False]
    by simp
qed

subsection \<open>Directory traversal\<close>

text \<open>
  Claim C4. When the recorded filename of the identifier contains "../" or begins with
  "/", the file-serving endpoint answers with HTTP status 400 and the JSON error body
  "Invalid filename", sends no file, schedules no cleanup and leaves both tables as they
  are, whatever the download directory holds (also when a file of that literal name
  exists).
\<close>

theorem download_file_rejects_traversal:
  "download_metadata st video_id = Some m \<and> md_filename m = Some fname
   \<and> (str_in ''../'' fname \<or> startswith fname ''/'') \<longrightarrow>
     download_file now fs video_id st = (JsonError 400 ''Invalid filename'', st, None)"
proof -
  have "str_in ''..'' fname" if "str_in ''../'' fname"
    using str_in_prefix [of "''..''" "''/''" fname] that by simp
  then show ?thesis
    by (auto simp add: download_file_def serve_file_def Let_def)
qed

theorem download_file_rejects_traversal_witness:
  "exists_nonempty traversal_dir (path_join DOWNLOAD_FOLDER ''../secret.txt'')
   \<and> download_file 10 traversal_dir ''abc'' traversal_state =
       (JsonError 400 ''Invalid filename'', traversal_state, None)"
proof -
  have e: "exists_nonempty traversal_dir (path_join DOWNLOAD_FOLDER ''../secret.txt'')"
    by (simp add: exists_nonempty_def traversal_dir_def path_join_def DOWNLOAD_FOLDER_def
        startswith_def)
  have s: "str_in ''../'' ''../secret.txt''"
    by (simp add: startswith_def)
  show ?thesis
    using e s download_file_rejects_traversal
      [of traversal_state "''abc''" _ "''../secret.txt''" 10 traversal_dir]
    by (simp add: traversal_state_def set_metadata_def no_jobs_def)
qed

subsection \<open>Polling a completed job whose file is gone\<close>

text \<open>
  Claim C5. A poll never changes the tables. When the stored ProgressRecord of the
  identifier has status "completed", its filename is recorded and not empty, and no file
  of that name exists in the download folder, the poll returns the stored record with
  the status "error" and the error "Downloaded file not found" (every other field,
  progress and downloaded bytes among them, as stored).
\<close>

theorem progress_poll_missing_file:
  "snd (progress_endpoint fs video_id st) = st
   \<and> (download_progress st video_id = Some r \<and> status r = ''completed''
        \<and> filename r = Some f \<and> f \<noteq> [] \<and> stat fs (path_join DOWNLOAD_FOLDER f) = None \<longrightarrow>
         progress_endpoint fs video_id st =
           (JsonProgress (r\<lparr>status := ''error'',
                            error := Some (Text ''Downloaded file not found'')\<rparr>), st))"
  by (auto simp add: progress_endpoint_def Let_def split: option.splits)

theorem progress_poll_missing_file_witness:
  "stat empty_dir (path_join DOWNLOAD_FOLDER ''T_abc.mp4'') = None
   \<and> progress_endpoint empty_dir ''abc'' completed_state =
       (JsonProgress
          \<lparr>progress = Finite 100, status = ''error'', filename = Some ''T_abc.mp4'',
           filepath = Some ''downloads/T_abc.mp4'', start_time = 0, downloaded_bytes = Some 10,
           total_bytes = Some 10, end_time = Some 5,
           error = Some (Text ''Downloaded file not found'')\<rparr>, completed_state)"
  using progress_poll_missing_file [of empty_dir "''abc''" completed_state _ "''T_abc.mp4''"]
  by (simp add: completed_state_def set_progress_def no_jobs_def empty_dir_def)

subsection \<open>Identifier extractor\<close>




subsection \<open>File discovery\<close>











subsection \<open>Rounding to a double keeps bounds\<close>






subsection \<open>Range of the progress field\<close>


lemma progress_ok_set_metadata [simp]:
  "progress_ok (set_metadata video_id m st) = progress_ok st"
  by (simp add: progress_ok_def set_metadata_def)












end
